theory Spec2Isabelle
  imports Main
begin

section \<open>The page's preload script\<close>

text \<open>
  The script of the page template (\<^verbatim>\<open>__preloadData\<close> and the \<^verbatim>\<open>try\<close> block that calls
  it) reads \<^verbatim>\<open>window.__initialData\<close>, publishes a registry object under
  \<^verbatim>\<open>window.__sentry_preload\<close> and sends up to three credentialed GET requests, each
  wrapped in a promise stored in the registry.
\<close>

subsection \<open>JavaScript values\<close>

text \<open>
  The page data is plain data: \<^verbatim>\<open>undefined\<close> (a missing property), \<^verbatim>\<open>null\<close>, booleans,
  strings and plain objects. An object is the list of its own properties, the first
  binding of a name being the property's value; its prototype is \<^verbatim>\<open>Object.prototype\<close>.
  Numbers and arrays are left out: no field that the script reads holds one.
\<close>

datatype jsval =
    JUndefined
  | JNull
  | JBool bool
  | JStr string
  | JObj "(string \<times> jsval) list"

text \<open>
  The exceptions of the script: a TypeError of the language, and the SyntaxError with which
  the transport refuses a URL or a header.
\<close>

datatype error = TypeError | SyntaxError

text \<open>\<^verbatim>\<open>!v\<close> is \<open>\<not> truthy v\<close>: the empty string is falsy, every object is truthy.\<close>

fun truthy :: "jsval \<Rightarrow> bool" where
  "truthy JUndefined = False"
| "truthy JNull = False"
| "truthy (JBool b) = b"
| "truthy (JStr s) = (s \<noteq> [])"
| "truthy (JObj ps) = True"

text \<open>
  \<^verbatim>\<open>v.name\<close>, for the names the script reads (\<^verbatim>\<open>user\<close>, \<^verbatim>\<open>lastOrganization\<close>,
  \<^verbatim>\<open>customerDomain\<close>, \<^verbatim>\<open>subdomain\<close>, \<^verbatim>\<open>links\<close>, \<^verbatim>\<open>regionUrl\<close>, \<^verbatim>\<open>sentryUrl\<close>,
  \<^verbatim>\<open>initialTrace\<close>, \<^verbatim>\<open>sentry_trace\<close>, \<^verbatim>\<open>baggage\<close>): none of them is defined on a
  prototype, so a boolean, a string or an object without the property gives
  \<^verbatim>\<open>undefined\<close>; reading a property of \<^verbatim>\<open>undefined\<close> or \<^verbatim>\<open>null\<close> throws a TypeError.
\<close>

fun get_prop :: "jsval \<Rightarrow> string \<Rightarrow> error + jsval" where
  "get_prop JUndefined name = Inl TypeError"
| "get_prop JNull name = Inl TypeError"
| "get_prop (JBool b) name = Inr JUndefined"
| "get_prop (JStr s) name = Inr JUndefined"
| "get_prop (JObj ps) name =
     (case map_of ps name of None \<Rightarrow> Inr JUndefined | Some v \<Rightarrow> Inr v)"

text \<open>
  \<^verbatim>\<open>a !== b\<close> is \<open>\<not> strict_eq a b\<close>. Primitives are compared by value, objects by
  identity; two object-valued properties of the page data are two objects.
\<close>

fun strict_eq :: "jsval \<Rightarrow> jsval \<Rightarrow> bool" where
  "strict_eq (JObj ps) b = False"
| "strict_eq a b = (a = b)"

text \<open>
  The conversion to a string that \<^verbatim>\<open>+\<close> with a string operand and a header value go
  through. A plain object gives \<^verbatim>\<open>[object Object]\<close>, unless an own property (which is
  data, not a function) hides \<^verbatim>\<open>Object.prototype.toString\<close>: then no conversion is left
  and a TypeError is thrown.
\<close>

fun to_string :: "jsval \<Rightarrow> error + string" where
  "to_string JUndefined = Inr ''undefined''"
| "to_string JNull = Inr ''null''"
| "to_string (JBool b) = Inr (if b then ''true'' else ''false'')"
| "to_string (JStr s) = Inr s"
| "to_string (JObj ps) =
     (if ''toString'' \<in> fst ` set ps then Inl TypeError else Inr ''[object Object]'')"

subsection \<open>Requests, promises and the page's state\<close>

record request =
  http_method :: string
  url :: string
  headers :: "(string \<times> string) list"
  withCredentials :: bool

text \<open>
  The checks of the transport are the browser's, not the script's, and are a parameter:
  for \<^verbatim>\<open>xhr.open('GET', url)\<close> and for \<^verbatim>\<open>xhr.setRequestHeader(name, value)\<close>, \<open>None\<close>
  when the call returns and the exception when it throws (a URL that does not parse, a
  value that is not a header value).
\<close>

record transport =
  open_throws :: "string \<Rightarrow> error option"
  header_throws :: "string \<Rightarrow> string \<Rightarrow> error option"

text \<open>
  What a promise is rejected with: the pair \<^verbatim>\<open>[status, statusText]\<close>, nothing at all
  (\<^verbatim>\<open>reject()\<close>), or the exception that the promise's executor threw.
\<close>

datatype reason = StatusPair nat string | NoValue | Exception error

text \<open>
  A promise made by \<^verbatim>\<open>promiseRequest\<close>: pending on the request it sent (the request's
  position in the list of sent requests stands for the \<^verbatim>\<open>xhr\<close> handle), fulfilled with
  \<^verbatim>\<open>[JSON.parse(xhr.response), statusText, xhr]\<close>, or rejected.
\<close>

datatype 'j promise = Pending nat | Fulfilled 'j string nat | Rejected reason

datatype 'j slot = Slug jsval | Future "'j promise"

type_synonym 'j registry = "string \<rightharpoonup> 'j slot"

text \<open>
  The state the script works on: the objects it has allocated (a reference is a position
  in the list), the global \<^verbatim>\<open>window.__sentry_preload\<close> (\<open>None\<close> while it was never
  assigned) and the requests sent so far, in the order of their \<^verbatim>\<open>send()\<close>.
\<close>

record 'j world =
  objects :: "'j registry list"
  sentry_preload :: "nat option"
  issued :: "request list"

definition fresh_page :: "'j world" where
  "fresh_page = \<lparr>objects = [], sentry_preload = None, issued = []\<rparr>"

datatype completion = Returned | Thrown error

subsection \<open>The script\<close>

text \<open>
  \<^verbatim>\<open>var slug = window.__initialData.lastOrganization;
  if (!slug && window.__initialData.customerDomain) {
    slug = window.__initialData.customerDomain.subdomain;
  }\<close>
\<close>

definition resolve_slug :: "jsval \<Rightarrow> error + jsval" where
  "resolve_slug d =
     (case get_prop d ''lastOrganization'' of
        Inl e \<Rightarrow> Inl e
      | Inr slug \<Rightarrow>
          if truthy slug then Inr slug
          else (case get_prop d ''customerDomain'' of
                  Inl e \<Rightarrow> Inl e
                | Inr cd \<Rightarrow> if truthy cd then get_prop cd ''subdomain'' else Inr slug))"

text \<open>
  \<^verbatim>\<open>var host = '';
  if (window.__initialData.links &&
      window.__initialData.links.regionUrl !== window.__initialData.links.sentryUrl) {
    var host = window.__initialData.links.regionUrl;
  }\<close>
\<close>

definition resolve_host :: "jsval \<Rightarrow> error + jsval" where
  "resolve_host d =
     (case get_prop d ''links'' of
        Inl e \<Rightarrow> Inl e
      | Inr links \<Rightarrow>
          if \<not> truthy links then Inr (JStr [])
          else (case get_prop links ''regionUrl'' of
                  Inl e \<Rightarrow> Inl e
                | Inr region \<Rightarrow>
                    (case get_prop links ''sentryUrl'' of
                       Inl e \<Rightarrow> Inl e
                     | Inr sentry \<Rightarrow>
                         if \<not> strict_eq region sentry then get_prop links ''regionUrl''
                         else Inr (JStr []))))"

text \<open>\<^verbatim>\<open>return host + '/api/0/organizations/' + slug + suffix;\<close>\<close>

definition makeUrl :: "jsval \<Rightarrow> jsval \<Rightarrow> string \<Rightarrow> error + string" where
  "makeUrl host slug suffix =
     (case to_string host of
        Inl e \<Rightarrow> Inl e
      | Inr h \<Rightarrow>
          (case to_string slug of
             Inl e \<Rightarrow> Inl e
           | Inr s \<Rightarrow> Inr (h @ ''/api/0/organizations/'' @ s @ suffix)))"

text \<open>
  The value handed to \<^verbatim>\<open>setRequestHeader\<close>:
  \<^verbatim>\<open>window.__initialData.initialTrace.sentry_trace\<close> (or \<^verbatim>\<open>.baggage\<close>), converted to the
  string that the header takes.
\<close>

definition trace_header :: "jsval \<Rightarrow> string \<Rightarrow> error + string" where
  "trace_header d name =
     (case get_prop d ''initialTrace'' of
        Inl e \<Rightarrow> Inl e
      | Inr trace \<Rightarrow>
          (case get_prop trace name of
             Inl e \<Rightarrow> Inl e
           | Inr v \<Rightarrow> to_string v))"

text \<open>
  \<^verbatim>\<open>promiseRequest(url)\<close>. The executor of the promise opens the request, sets the two
  headers, sets \<^verbatim>\<open>withCredentials\<close>, installs the handlers and sends:
  \<^verbatim>\<open>xhr.open('GET', url);
  xhr.setRequestHeader("sentry-trace", window.__initialData.initialTrace.sentry_trace);
  xhr.setRequestHeader("baggage", window.__initialData.initialTrace.baggage);
  xhr.withCredentials = true;
  ...
  xhr.send();\<close>
  An exception in the executor, be it from reading the trace context or from the transport
  refusing the URL or a header, does not reach the caller: it rejects the promise, and
  the request, not yet sent, never is.
\<close>

definition promiseRequest ::
    "transport \<Rightarrow> jsval \<Rightarrow> string \<Rightarrow> 'j world \<Rightarrow> 'j promise \<times> 'j world" where
  "promiseRequest tr d u w =
     (case open_throws tr u of
        Some e \<Rightarrow> (Rejected (Exception e), w)
      | None \<Rightarrow>
          let xhr = \<lparr>http_method = ''GET'', url = u, headers = [], withCredentials = False\<rparr> in
          (case trace_header d ''sentry_trace'' of
             Inl e \<Rightarrow> (Rejected (Exception e), w)
           | Inr st \<Rightarrow>
               (case header_throws tr ''sentry-trace'' st of
                  Some e \<Rightarrow> (Rejected (Exception e), w)
                | None \<Rightarrow>
                    let xhr = xhr\<lparr>headers := headers xhr @ [(''sentry-trace'', st)]\<rparr> in
                    (case trace_header d ''baggage'' of
                       Inl e \<Rightarrow> (Rejected (Exception e), w)
                     | Inr bg \<Rightarrow>
                         (case header_throws tr ''baggage'' bg of
                            Some e \<Rightarrow> (Rejected (Exception e), w)
                          | None \<Rightarrow>
                              let xhr = xhr\<lparr>headers := headers xhr @ [(''baggage'', bg)]\<rparr>;
                                  xhr = xhr\<lparr>withCredentials := True\<rparr>
                              in (Pending (length (issued w)),
                                  w\<lparr>issued := issued w @ [xhr]\<rparr>))))))"

text \<open>
  \<^verbatim>\<open>preloadPromises.key = p\<close>: the local variable holds the reference \<open>r\<close>, the same
  that \<^verbatim>\<open>window.__sentry_preload\<close> holds, so the assignment changes the published object.
\<close>

definition assign :: "nat \<Rightarrow> string \<Rightarrow> 'j promise \<Rightarrow> 'j world \<Rightarrow> 'j world" where
  "assign r key p w = w\<lparr>objects := (objects w)[r := (objects w ! r)(key \<mapsto> Future p)]\<rparr>"

text \<open>\<^verbatim>\<open>preloadPromises.key = promiseRequest(makeUrl(suffix));\<close>\<close>

definition preload ::
    "transport \<Rightarrow> jsval \<Rightarrow> jsval \<Rightarrow> jsval \<Rightarrow> nat \<Rightarrow> string \<Rightarrow> string \<Rightarrow> 'j world
      \<Rightarrow> completion \<times> 'j world" where
  "preload tr d host slug r key suffix w =
     (case makeUrl host slug suffix of
        Inl e \<Rightarrow> (Thrown e, w)
      | Inr u \<Rightarrow> (case promiseRequest tr d u w of (p, w') \<Rightarrow> (Returned, assign r key p w')))"

text \<open>\<^verbatim>\<open>function __preloadData()\<close>, on the page data \<open>d\<close>, in a browser with the transport \<open>tr\<close>.\<close>

definition preloadData :: "transport \<Rightarrow> jsval \<Rightarrow> 'j world \<Rightarrow> completion \<times> 'j world" where
  "preloadData tr d w =
     (case get_prop d ''user'' of
        Inl e \<Rightarrow> (Thrown e, w)
      | Inr user \<Rightarrow>
          if \<not> truthy user then (Returned, w)
          else
            (case resolve_slug d of
               Inl e \<Rightarrow> (Thrown e, w)
             | Inr slug \<Rightarrow>
                 (case resolve_host d of
                    Inl e \<Rightarrow> (Thrown e, w)
                  | Inr host \<Rightarrow>
                      let r = length (objects w);
                          w = w\<lparr>objects := objects w @ [[''orgSlug'' \<mapsto> Slug slug]]\<rparr>;
                          w = w\<lparr>sentry_preload := Some r\<rparr>
                      in
                        if \<not> truthy slug then (Returned, w)
                        else
                          (case preload tr d host slug r ''organization'' ''/?detailed=0'' w of
                             (Thrown e, w) \<Rightarrow> (Thrown e, w)
                           | (Returned, w) \<Rightarrow>
                               (case preload tr d host slug r ''projects''
                                      ''/projects/?all_projects=1&collapse=latestDeploys&collapse=unusedFeatures''
                                      w of
                                  (Thrown e, w) \<Rightarrow> (Thrown e, w)
                                | (Returned, w) \<Rightarrow>
                                    preload tr d host slug r ''teams'' ''/teams/'' w)))))"

text \<open>\<^verbatim>\<open>try { __preloadData(); } catch (_) {}\<close>, on a page that has just loaded.\<close>

definition bootstrap :: "transport \<Rightarrow> jsval \<Rightarrow> completion \<times> 'j world" where
  "bootstrap tr d =
     (case preloadData tr d fresh_page of
        (Thrown e, w) \<Rightarrow> (Returned, w)
      | (Returned, w) \<Rightarrow> (Returned, w))"

subsection \<open>The handlers of a request\<close>

record response =
  status :: nat
  statusText :: string
  body :: string

datatype xhr_event = OnLoad response | OnError response

text \<open>
  \<^verbatim>\<open>xhr.onload\<close>, with \<^verbatim>\<open>JSON.parse\<close> as the parameter \<open>parse\<close> (\<open>None\<close> when it
  throws): the promise's outcome when the load event of request \<open>x\<close> arrives.
  \<^verbatim>\<open>try {
    this.status >= 200 && this.status < 300
      ? resolve([JSON.parse(xhr.response), this.statusText, xhr])
      : reject([this.status, this.statusText]);
  } catch (e) { reject(); }\<close>
\<close>

definition onload :: "(string \<Rightarrow> 'j option) \<Rightarrow> nat \<Rightarrow> response \<Rightarrow> 'j promise" where
  "onload parse x rsp =
     (if 200 \<le> status rsp \<and> status rsp < 300
      then (case parse (body rsp) of
              Some v \<Rightarrow> Fulfilled v (statusText rsp) x
            | None \<Rightarrow> Rejected NoValue)
      else Rejected (StatusPair (status rsp) (statusText rsp)))"

text \<open>\<^verbatim>\<open>xhr.onerror = function () { reject([this.status, this.statusText]); }\<close>\<close>

definition onerror :: "response \<Rightarrow> 'j promise" where
  "onerror rsp = Rejected (StatusPair (status rsp) (statusText rsp))"

text \<open>
  An event of request \<open>x\<close> runs the handler that the promise pending on \<open>x\<close> installed;
  a promise that is settled, or pending on another request, is not touched.
\<close>

definition fire :: "(string \<Rightarrow> 'j option) \<Rightarrow> nat \<Rightarrow> xhr_event \<Rightarrow> 'j promise \<Rightarrow> 'j promise" where
  "fire parse x ev p =
     (case p of
        Pending y \<Rightarrow>
          if y = x then (case ev of OnLoad rsp \<Rightarrow> onload parse x rsp | OnError rsp \<Rightarrow> onerror rsp)
          else p
      | _ \<Rightarrow> p)"

fun fire_slot :: "(string \<Rightarrow> 'j option) \<Rightarrow> nat \<Rightarrow> xhr_event \<Rightarrow> 'j slot \<Rightarrow> 'j slot" where
  "fire_slot parse x ev (Slug v) = Slug v"
| "fire_slot parse x ev (Future p) = Future (fire parse x ev p)"

definition deliver :: "(string \<Rightarrow> 'j option) \<Rightarrow> nat \<Rightarrow> xhr_event \<Rightarrow> 'j world \<Rightarrow> 'j world" where
  "deliver parse x ev w =
     w\<lparr>objects := map (\<lambda>obj key. map_option (fire_slot parse x ev) (obj key)) (objects w)\<rparr>"

text \<open>The events of a page load, one after the other: each names its request.\<close>

fun deliver_all :: "(string \<Rightarrow> 'j option) \<Rightarrow> (nat \<times> xhr_event) list \<Rightarrow> 'j world \<Rightarrow> 'j world" where
  "deliver_all parse [] w = w"
| "deliver_all parse ((x, ev) # evs) w = deliver_all parse evs (deliver parse x ev w)"

subsection \<open>What a reader of the page sees\<close>

text \<open>The object behind \<^verbatim>\<open>window.__sentry_preload\<close>, if the global was ever assigned.\<close>

definition published :: "'j world \<Rightarrow> 'j registry option" where
  "published w =
     (case sentry_preload w of
        None \<Rightarrow> None
      | Some r \<Rightarrow> if r < length (objects w) then Some (objects w ! r) else None)"

definition registry_keys :: "'j world \<Rightarrow> string set" where
  "registry_keys w = (case published w of None \<Rightarrow> {} | Some obj \<Rightarrow> dom obj)"

definition future_of :: "'j world \<Rightarrow> string \<Rightarrow> 'j promise option" where
  "future_of w key =
     (case published w of
        None \<Rightarrow> None
      | Some obj \<Rightarrow> (case obj key of Some (Future p) \<Rightarrow> Some p | _ \<Rightarrow> None))"

definition request_keys :: "string set" where
  "request_keys = {''organization'', ''projects'', ''teams''}"

text \<open>A request as the script sends it: with credentials and the two headers of the trace context.\<close>

definition well_sent :: "jsval \<Rightarrow> request \<Rightarrow> bool" where
  "well_sent d r \<longleftrightarrow>
     withCredentials r \<and>
     (\<exists>st bg. trace_header d ''sentry_trace'' = Inr st \<and> trace_header d ''baggage'' = Inr bg \<and>
        headers r = [(''sentry-trace'', st), (''baggage'', bg)])"

text \<open>The page data carries an authenticated-user marker.\<close>

definition has_user :: "jsval \<Rightarrow> bool" where
  "has_user d = (case get_prop d ''user'' of Inl e \<Rightarrow> False | Inr user \<Rightarrow> truthy user)"

subsection \<open>Example page data\<close>

text \<open>
  A signed-in page of organization \<^verbatim>\<open>acme\<close>, served from a customer domain, whose region
  host is not the default host.
\<close>

definition example_page :: jsval where
  "example_page = JObj
     [(''user'', JObj [(''id'', JStr ''1'')]),
      (''lastOrganization'', JStr ''acme''),
      (''customerDomain'', JObj [(''subdomain'', JStr ''other'')]),
      (''links'', JObj [(''regionUrl'', JStr ''https://us.sentry.io''),
                        (''sentryUrl'', JStr ''https://sentry.io'')]),
      (''initialTrace'', JObj [(''sentry_trace'', JStr ''0af7651916cd43dd-b7ad6b7169203331''),
                               (''baggage'', JStr ''sentry-environment=prod'')])]"

text \<open>The same organization where the region host is the default host.\<close>

definition acme_page :: jsval where
  "acme_page = JObj
     [(''user'', JObj [(''id'', JStr ''1'')]),
      (''lastOrganization'', JStr ''acme''),
      (''links'', JObj [(''regionUrl'', JStr ''https://sentry.io''),
                        (''sentryUrl'', JStr ''https://sentry.io'')]),
      (''initialTrace'', JObj [(''sentry_trace'', JStr ''0af7651916cd43dd-b7ad6b7169203331''),
                               (''baggage'', JStr ''sentry-environment=prod'')])]"

text \<open>A page whose links carry the default host and no region host.\<close>

definition page_without_region :: jsval where
  "page_without_region = JObj
     [(''user'', JObj [(''id'', JStr ''1'')]),
      (''lastOrganization'', JStr ''acme''),
      (''links'', JObj [(''sentryUrl'', JStr ''https://sentry.io'')]),
      (''initialTrace'', JObj [(''sentry_trace'', JStr ''0af7651916cd43dd-b7ad6b7169203331''),
                               (''baggage'', JStr ''sentry-environment=prod'')])]"

text \<open>A page of nobody, and a page of a user who has no organization yet.\<close>

definition anonymous_page :: jsval where
  "anonymous_page = JObj
     [(''user'', JNull),
      (''lastOrganization'', JStr ''acme''),
      (''links'', JObj [(''regionUrl'', JStr ''https://us.sentry.io''),
                        (''sentryUrl'', JStr ''https://sentry.io'')]),
      (''initialTrace'', JObj [(''sentry_trace'', JStr ''0af7651916cd43dd-b7ad6b7169203331''),
                               (''baggage'', JStr ''sentry-environment=prod'')])]"

definition no_tenant_page :: jsval where
  "no_tenant_page = JObj
     [(''user'', JObj [(''id'', JStr ''1'')]),
      (''lastOrganization'', JNull),
      (''customerDomain'', JNull),
      (''links'', JObj [(''regionUrl'', JStr ''https://us.sentry.io''),
                        (''sentryUrl'', JStr ''https://sentry.io'')]),
      (''initialTrace'', JObj [(''sentry_trace'', JStr ''0af7651916cd43dd-b7ad6b7169203331''),
                               (''baggage'', JStr ''sentry-environment=prod'')])]"

text \<open>A page whose region host is not a host: it holds a space.\<close>

definition page_with_bad_host :: jsval where
  "page_with_bad_host = JObj
     [(''user'', JObj [(''id'', JStr ''1'')]),
      (''lastOrganization'', JStr ''acme''),
      (''links'', JObj [(''regionUrl'', JStr ''http://exa mple.com''),
                        (''sentryUrl'', JStr ''https://sentry.io'')]),
      (''initialTrace'', JObj [(''sentry_trace'', JStr ''0af7651916cd43dd-b7ad6b7169203331''),
                               (''baggage'', JStr ''sentry-environment=prod'')])]"

text \<open>
  A stand-in for the browser's checks: it refuses a URL that holds a space and a header
  value that holds a line feed, both with a SyntaxError.
\<close>

definition example_transport :: transport where
  "example_transport =
     \<lparr>open_throws = (\<lambda>u. if CHR '' '' \<in> set u then Some SyntaxError else None),
      header_throws = (\<lambda>name v. if CHR 0x0A \<in> set v then Some SyntaxError else None)\<rparr>"

text \<open>A stand-in for \<^verbatim>\<open>JSON.parse\<close> that knows two documents and throws on the rest.\<close>

definition example_parse :: "string \<Rightarrow> jsval option" where
  "example_parse s =
     (if s = ''null'' then Some JNull
      else if s = ''{}'' then Some (JObj [])
      else None)"

definition server_error :: response where
  "server_error = \<lparr>status = 500, statusText = ''Internal Server Error'', body = []\<rparr>"

definition garbled_ok :: response where
  "garbled_ok = \<lparr>status = 200, statusText = ''OK'', body = ''<html>''\<rparr>"

definition empty_ok :: response where
  "empty_ok = \<lparr>status = 200, statusText = ''OK'', body = ''{}''\<rparr>"

section \<open>Properties\<close>

subsection \<open>Reading the page data\<close>

lemma get_prop_defined:
  "get_prop d name = Inr u \<Longrightarrow> \<exists>v. get_prop d other = Inr v"
  by (cases d) (auto split: option.splits)

lemma get_prop_truthy:
  "truthy v \<Longrightarrow> \<exists>x. get_prop v name = Inr x"
  by (cases v) (auto split: option.splits)

lemma resolve_slug_defined:
  "get_prop d name = Inr u \<Longrightarrow> \<exists>v. resolve_slug d = Inr v"
proof -
  assume a: "get_prop d name = Inr u"
  obtain lo where lo: "get_prop d ''lastOrganization'' = Inr lo"
    using get_prop_defined [OF a] by blast
  obtain cd where cd: "get_prop d ''customerDomain'' = Inr cd"
    using get_prop_defined [OF a] by blast
  show ?thesis
  proof (cases "truthy cd")
    case True
    then obtain s where "get_prop cd ''subdomain'' = Inr s"
      using get_prop_truthy by blast
    then show ?thesis using lo cd True by (simp add: resolve_slug_def)
  next
    case False
    then show ?thesis using lo cd by (simp add: resolve_slug_def)
  qed
qed

lemma resolve_host_defined:
  "get_prop d name = Inr u \<Longrightarrow> \<exists>v. resolve_host d = Inr v"
proof -
  assume a: "get_prop d name = Inr u"
  obtain l where l: "get_prop d ''links'' = Inr l"
    using get_prop_defined [OF a] by blast
  show ?thesis
  proof (cases "truthy l")
    case True
    obtain r where r: "get_prop l ''regionUrl'' = Inr r"
      using get_prop_truthy [OF True] by blast
    obtain s where s: "get_prop l ''sentryUrl'' = Inr s"
      using get_prop_truthy [OF True] by blast
    show ?thesis using l True r s by (simp add: resolve_host_def)
  next
    case False
    then show ?thesis using l by (simp add: resolve_host_def)
  qed
qed

lemma resolve_host_without_links:
  "get_prop d ''links'' = Inr l \<Longrightarrow> \<not> truthy l \<Longrightarrow> resolve_host d = Inr (JStr [])"
  by (simp add: resolve_host_def)

lemma resolve_host_with_links:
  "get_prop d ''links'' = Inr l \<Longrightarrow> truthy l \<Longrightarrow>
   get_prop l ''regionUrl'' = Inr region \<Longrightarrow> get_prop l ''sentryUrl'' = Inr sentry \<Longrightarrow>
   resolve_host d = Inr (if strict_eq region sentry then JStr [] else region)"
  by (simp add: resolve_host_def)

lemma has_user_iff: "has_user d \<longleftrightarrow> (\<exists>u. get_prop d ''user'' = Inr u \<and> truthy u)"
  by (cases "get_prop d ''user''") (simp_all add: has_user_def)

lemma has_userE:
  assumes "has_user d"
  obtains u where "get_prop d ''user'' = Inr u" "truthy u"
  using assms by (auto simp add: has_user_iff)

subsection \<open>The paths through the script\<close>

lemma preloadData_no_data:
  "get_prop d ''user'' = Inl e \<Longrightarrow> preloadData tr d w = (Thrown e, w)"
  by (simp add: preloadData_def)

lemma preloadData_throws_without_data:
  "preloadData tr JUndefined fresh_page = (Thrown TypeError, fresh_page)"
  by (simp add: preloadData_def)

lemma preloadData_no_user:
  "get_prop d ''user'' = Inr u \<Longrightarrow> \<not> truthy u \<Longrightarrow> preloadData tr d w = (Returned, w)"
  by (simp add: preloadData_def)

lemma preloadData_no_slug:
  assumes "get_prop d ''user'' = Inr u" "truthy u" "resolve_slug d = Inr sl" "\<not> truthy sl"
  shows "preloadData tr d w =
    (Returned, w\<lparr>objects := objects w @ [[''orgSlug'' \<mapsto> Slug sl]],
                 sentry_preload := Some (length (objects w))\<rparr>)"
proof -
  obtain h where "resolve_host d = Inr h"
    using resolve_host_defined [OF assms(1)] by blast
  then show ?thesis using assms by (simp add: preloadData_def)
qed

lemma promiseRequest_sent:
  "open_throws tr u = None \<Longrightarrow>
   trace_header d ''sentry_trace'' = Inr st \<Longrightarrow> header_throws tr ''sentry-trace'' st = None \<Longrightarrow>
   trace_header d ''baggage'' = Inr bg \<Longrightarrow> header_throws tr ''baggage'' bg = None \<Longrightarrow>
   promiseRequest tr d u w =
     (Pending (length (issued w)),
      w\<lparr>issued := issued w @ [\<lparr>http_method = ''GET'', url = u,
         headers = [(''sentry-trace'', st), (''baggage'', bg)], withCredentials = True\<rparr>]\<rparr>)"
  by (simp add: promiseRequest_def)

lemma promiseRequest_refused:
  "open_throws tr u = Some e \<Longrightarrow> promiseRequest tr d u w = (Rejected (Exception e), w)"
  by (simp add: promiseRequest_def)

text \<open>
  Whatever the transport does, \<^verbatim>\<open>promiseRequest\<close> returns a promise that is not fulfilled
  and sends at most the one request, with the credentials and the headers of the trace
  context; nothing else of the page changes.
\<close>

lemma promiseRequest_shape:
  "\<exists>p rs. promiseRequest tr d u w = (p, w\<lparr>issued := issued w @ rs\<rparr>) \<and>
     (\<forall>v t x. p \<noteq> Fulfilled v t x) \<and> (\<forall>r \<in> set rs. well_sent d r)"
proof -
  have "(\<exists>st bg. open_throws tr u = None \<and>
          trace_header d ''sentry_trace'' = Inr st \<and> header_throws tr ''sentry-trace'' st = None \<and>
          trace_header d ''baggage'' = Inr bg \<and> header_throws tr ''baggage'' bg = None) \<or>
        (\<exists>e. promiseRequest tr d u w = (Rejected (Exception e), w))"
    by (auto simp add: promiseRequest_def Let_def split: option.split sum.split)
  then consider
    (sent) st bg where
      "open_throws tr u = None"
      "trace_header d ''sentry_trace'' = Inr st" "header_throws tr ''sentry-trace'' st = None"
      "trace_header d ''baggage'' = Inr bg" "header_throws tr ''baggage'' bg = None"
  | (rejected) e where "promiseRequest tr d u w = (Rejected (Exception e), w)"
    by blast
  then show ?thesis
  proof cases
    case sent
    let ?r = "\<lparr>http_method = ''GET'', url = u,
      headers = [(''sentry-trace'', st), (''baggage'', bg)], withCredentials = True\<rparr>"
    have "promiseRequest tr d u w = (Pending (length (issued w)), w\<lparr>issued := issued w @ [?r]\<rparr>)"
      using sent by (rule promiseRequest_sent)
    moreover have "\<forall>r \<in> set [?r]. well_sent d r"
      using sent by (simp add: well_sent_def)
    ultimately show ?thesis by blast
  next
    case rejected
    then have "promiseRequest tr d u w = (Rejected (Exception e), w\<lparr>issued := issued w @ []\<rparr>)"
      by simp
    moreover have "\<forall>r \<in> set ([] :: request list). well_sent d r"
      by simp
    ultimately show ?thesis by blast
  qed
qed

lemma makeUrl_error:
  "to_string h = Inl e \<or> (\<exists>hs. to_string h = Inr hs) \<and> to_string sl = Inl e \<Longrightarrow>
   makeUrl h sl suffix = Inl e"
  by (auto simp add: makeUrl_def)

lemma preloadData_url_error:
  assumes "get_prop d ''user'' = Inr u" "truthy u"
    and "resolve_slug d = Inr sl" "truthy sl" "resolve_host d = Inr h"
    and "to_string h = Inl e \<or> (\<exists>hs. to_string h = Inr hs) \<and> to_string sl = Inl e"
  shows "preloadData tr d w =
    (Thrown e, w\<lparr>objects := objects w @ [[''orgSlug'' \<mapsto> Slug sl]],
                 sentry_preload := Some (length (objects w))\<rparr>)"
  using assms(1-5) makeUrl_error [OF assms(6)]
  by (simp add: preloadData_def preload_def)

text \<open>With a transport that takes the three URLs and the two headers, all three go out.\<close>

lemma preloadData_issue:
  assumes "get_prop d ''user'' = Inr u" "truthy u"
    and "resolve_slug d = Inr sl" "truthy sl" "to_string sl = Inr s"
    and "resolve_host d = Inr h" "to_string h = Inr hs"
    and "trace_header d ''sentry_trace'' = Inr st" "trace_header d ''baggage'' = Inr bg"
    and "open_throws tr (hs @ ''/api/0/organizations/'' @ s @ ''/?detailed=0'') = None"
    and "open_throws tr (hs @ ''/api/0/organizations/'' @ s @
      ''/projects/?all_projects=1&collapse=latestDeploys&collapse=unusedFeatures'') = None"
    and "open_throws tr (hs @ ''/api/0/organizations/'' @ s @ ''/teams/'') = None"
    and "header_throws tr ''sentry-trace'' st = None" "header_throws tr ''baggage'' bg = None"
  shows "preloadData tr d (fresh_page :: 'j world) =
    (Returned,
     \<lparr>objects = [[''orgSlug'' \<mapsto> Slug sl, ''organization'' \<mapsto> Future (Pending 0),
                  ''projects'' \<mapsto> Future (Pending 1), ''teams'' \<mapsto> Future (Pending 2)]],
      sentry_preload = Some 0,
      issued = [
        \<lparr>http_method = ''GET'', url = hs @ ''/api/0/organizations/'' @ s @ ''/?detailed=0'',
         headers = [(''sentry-trace'', st), (''baggage'', bg)], withCredentials = True\<rparr>,
        \<lparr>http_method = ''GET'', url = hs @ ''/api/0/organizations/'' @ s @
           ''/projects/?all_projects=1&collapse=latestDeploys&collapse=unusedFeatures'',
         headers = [(''sentry-trace'', st), (''baggage'', bg)], withCredentials = True\<rparr>,
        \<lparr>http_method = ''GET'', url = hs @ ''/api/0/organizations/'' @ s @ ''/teams/'',
         headers = [(''sentry-trace'', st), (''baggage'', bg)], withCredentials = True\<rparr>]\<rparr>)"
  using assms
  by (simp add: preloadData_def preload_def makeUrl_def promiseRequest_sent assign_def
      fresh_page_def numeral_2_eq_2)

text \<open>
  With a user and a tenant slug, the script ends in one of two ways: the URL cannot be
  built and nothing is assigned, or each of the three keys is assigned a promise that is
  not fulfilled, and what went out carries the credentials and the trace context.
\<close>

lemma preloadData_outcome:
  assumes "get_prop d ''user'' = Inr u" "truthy u" "resolve_slug d = Inr sl" "truthy sl"
  obtains
    (url_error) e where
      "preloadData tr d (fresh_page :: 'j world) =
         (Thrown e, \<lparr>objects = [[''orgSlug'' \<mapsto> Slug sl]], sentry_preload = Some 0, issued = []\<rparr>)"
  | (assigned) p1 p2 p3 rs where
      "preloadData tr d (fresh_page :: 'j world) =
         (Returned,
          \<lparr>objects = [[''orgSlug'' \<mapsto> Slug sl, ''organization'' \<mapsto> Future p1,
                       ''projects'' \<mapsto> Future p2, ''teams'' \<mapsto> Future p3]],
           sentry_preload = Some 0,
           issued = rs\<rparr>)"
      "\<forall>v t x. p1 \<noteq> Fulfilled v t x" "\<forall>v t x. p2 \<noteq> Fulfilled v t x"
      "\<forall>v t x. p3 \<noteq> Fulfilled v t x"
      "\<forall>r \<in> set rs. well_sent d r"
proof -
  obtain h where h: "resolve_host d = Inr h"
    using resolve_host_defined [OF assms(1)] by blast
  show thesis
  proof (cases "to_string h")
    case (Inl e)
    then have "to_string h = Inl e \<or> (\<exists>hs. to_string h = Inr hs) \<and> to_string sl = Inl e"
      by simp
    from preloadData_url_error [OF assms h this, of tr fresh_page] show thesis
      by (intro url_error [of e]) (simp add: fresh_page_def)
  next
    case hs: (Inr hs)
    show thesis
    proof (cases "to_string sl")
      case (Inl e)
      then have "to_string h = Inl e \<or> (\<exists>hs. to_string h = Inr hs) \<and> to_string sl = Inl e"
        using hs by simp
      from preloadData_url_error [OF assms h this, of tr fresh_page] show thesis
        by (intro url_error [of e]) (simp add: fresh_page_def)
    next
      case s: (Inr s)
      let ?base = "hs @ ''/api/0/organizations/'' @ s"
      let ?W1 = "\<lparr>objects = [[''orgSlug'' \<mapsto> Slug sl]], sentry_preload = Some 0,
        issued = []\<rparr> :: 'j world"
      obtain p1 rs1 where a1:
          "promiseRequest tr d (?base @ ''/?detailed=0'') ?W1 =
            (p1, \<lparr>objects = [[''orgSlug'' \<mapsto> Slug sl]], sentry_preload = Some 0, issued = rs1\<rparr>)"
        and f1: "\<forall>v t x. p1 \<noteq> Fulfilled v t x" and g1: "\<forall>r \<in> set rs1. well_sent d r"
        using promiseRequest_shape [of tr d "?base @ ''/?detailed=0''" ?W1] by auto
      let ?W2 = "\<lparr>objects = [[''orgSlug'' \<mapsto> Slug sl, ''organization'' \<mapsto> Future p1]],
        sentry_preload = Some 0, issued = rs1\<rparr> :: 'j world"
      obtain p2 rs2 where a2:
          "promiseRequest tr d (?base @
              ''/projects/?all_projects=1&collapse=latestDeploys&collapse=unusedFeatures'') ?W2 =
            (p2, \<lparr>objects = [[''orgSlug'' \<mapsto> Slug sl, ''organization'' \<mapsto> Future p1]],
                  sentry_preload = Some 0, issued = rs1 @ rs2\<rparr>)"
        and f2: "\<forall>v t x. p2 \<noteq> Fulfilled v t x" and g2: "\<forall>r \<in> set rs2. well_sent d r"
        using promiseRequest_shape [of tr d "?base @
          ''/projects/?all_projects=1&collapse=latestDeploys&collapse=unusedFeatures''" ?W2]
        by auto
      let ?W3 = "\<lparr>objects = [[''orgSlug'' \<mapsto> Slug sl, ''organization'' \<mapsto> Future p1,
          ''projects'' \<mapsto> Future p2]],
        sentry_preload = Some 0, issued = rs1 @ rs2\<rparr> :: 'j world"
      obtain p3 rs3 where a3:
          "promiseRequest tr d (?base @ ''/teams/'') ?W3 =
            (p3, \<lparr>objects = [[''orgSlug'' \<mapsto> Slug sl, ''organization'' \<mapsto> Future p1,
                    ''projects'' \<mapsto> Future p2]],
                  sentry_preload = Some 0, issued = rs1 @ rs2 @ rs3\<rparr>)"
        and f3: "\<forall>v t x. p3 \<noteq> Fulfilled v t x" and g3: "\<forall>r \<in> set rs3. well_sent d r"
        using promiseRequest_shape [of tr d "?base @ ''/teams/''" ?W3] by auto
      have eq: "preloadData tr d (fresh_page :: 'j world) =
         (Returned,
          \<lparr>objects = [[''orgSlug'' \<mapsto> Slug sl, ''organization'' \<mapsto> Future p1,
                       ''projects'' \<mapsto> Future p2, ''teams'' \<mapsto> Future p3]],
           sentry_preload = Some 0,
           issued = rs1 @ rs2 @ rs3\<rparr>)"
        using assms h hs s a1 a2 a3
        by (simp add: preloadData_def preload_def makeUrl_def assign_def fresh_page_def)
      have g: "\<forall>r \<in> set (rs1 @ rs2 @ rs3). well_sent d r"
        using g1 g2 g3 by auto
      show thesis
        by (rule assigned [OF eq f1 f2 f3 g])
    qed
  qed
qed

lemma bootstrap_world: "snd (bootstrap tr d) = snd (preloadData tr d fresh_page)"
  by (simp add: bootstrap_def split: prod.splits completion.splits)

lemma bootstrap_orgSlug:
  assumes "has_user d" "resolve_slug d = Inr sl"
  shows "\<exists>obj. published (snd (bootstrap tr d :: completion \<times> 'j world)) = Some obj \<and>
    obj ''orgSlug'' = Some (Slug sl)"
proof -
  obtain u where u: "get_prop d ''user'' = Inr u" "truthy u"
    using assms(1) by (auto simp add: has_user_iff)
  note base = u assms(2)
  show ?thesis
  proof (cases "truthy sl")
    case False
    show ?thesis
      by (simp add: bootstrap_world preloadData_no_slug [OF base False] published_def fresh_page_def)
  next
    case True
    from base True show ?thesis
    proof (cases rule: preloadData_outcome [where 'j = 'j and tr = tr])
      case (url_error e)
      then show ?thesis by (simp add: bootstrap_world published_def)
    next
      case (assigned p1 p2 p3 rs)
      then show ?thesis by (simp add: bootstrap_world published_def)
    qed
  qed
qed

subsection \<open>The events of the requests\<close>

lemma published_deliver:
  "published (deliver parse x ev w) =
     map_option (\<lambda>obj key. map_option (fire_slot parse x ev) (obj key)) (published w)"
  by (simp add: published_def deliver_def split: option.splits)

lemma registry_keys_deliver: "registry_keys (deliver parse x ev w) = registry_keys w"
  by (cases "published w") (auto simp add: registry_keys_def published_deliver dom_def)

lemma registry_keys_deliver_all: "registry_keys (deliver_all parse evs w) = registry_keys w"
  by (induction evs arbitrary: w) (auto simp add: registry_keys_deliver)

lemma future_of_deliver:
  "future_of (deliver parse x ev w) key = map_option (fire parse x ev) (future_of w key)"
proof (cases "published w")
  case None
  then show ?thesis by (simp add: future_of_def published_deliver)
next
  case (Some obj)
  show ?thesis
  proof (cases "obj key")
    case None
    with Some show ?thesis by (simp add: future_of_def published_deliver)
  next
    case (Some s)
    with \<open>published w = Some obj\<close> show ?thesis
      by (cases s) (simp_all add: future_of_def published_deliver)
  qed
qed

lemma fire_own_load: "fire parse x (OnLoad rsp) (Pending x) = onload parse x rsp"
  by (simp add: fire_def)

lemma fire_own_error: "fire parse x (OnError rsp) (Pending x) = onerror rsp"
  by (simp add: fire_def)

lemma fire_other: "y \<noteq> x \<Longrightarrow> fire parse y ev (Pending x) = Pending x"
  by (simp add: fire_def)

subsection \<open>The example page\<close>

lemma example_page_loaded:
  "preloadData example_transport example_page (fresh_page :: 'j world) =
    (Returned,
     \<lparr>objects = [[''orgSlug'' \<mapsto> Slug (JStr ''acme''), ''organization'' \<mapsto> Future (Pending 0),
                  ''projects'' \<mapsto> Future (Pending 1), ''teams'' \<mapsto> Future (Pending 2)]],
      sentry_preload = Some 0,
      issued = [
        \<lparr>http_method = ''GET'',
         url = ''https://us.sentry.io/api/0/organizations/acme/?detailed=0'',
         headers = [(''sentry-trace'', ''0af7651916cd43dd-b7ad6b7169203331''),
                    (''baggage'', ''sentry-environment=prod'')], withCredentials = True\<rparr>,
        \<lparr>http_method = ''GET'',
         url = ''https://us.sentry.io/api/0/organizations/acme/projects/?all_projects=1&collapse=latestDeploys&collapse=unusedFeatures'',
         headers = [(''sentry-trace'', ''0af7651916cd43dd-b7ad6b7169203331''),
                    (''baggage'', ''sentry-environment=prod'')], withCredentials = True\<rparr>,
        \<lparr>http_method = ''GET'',
         url = ''https://us.sentry.io/api/0/organizations/acme/teams/'',
         headers = [(''sentry-trace'', ''0af7651916cd43dd-b7ad6b7169203331''),
                    (''baggage'', ''sentry-environment=prod'')], withCredentials = True\<rparr>]\<rparr>)"
proof -
  have "preloadData example_transport example_page (fresh_page :: 'j world) =
    (Returned,
     \<lparr>objects = [[''orgSlug'' \<mapsto> Slug (JStr ''acme''), ''organization'' \<mapsto> Future (Pending 0),
                  ''projects'' \<mapsto> Future (Pending 1), ''teams'' \<mapsto> Future (Pending 2)]],
      sentry_preload = Some 0,
      issued = [
        \<lparr>http_method = ''GET'',
         url = ''https://us.sentry.io'' @ ''/api/0/organizations/'' @ ''acme'' @ ''/?detailed=0'',
         headers = [(''sentry-trace'', ''0af7651916cd43dd-b7ad6b7169203331''),
                    (''baggage'', ''sentry-environment=prod'')], withCredentials = True\<rparr>,
        \<lparr>http_method = ''GET'',
         url = ''https://us.sentry.io'' @ ''/api/0/organizations/'' @ ''acme'' @
           ''/projects/?all_projects=1&collapse=latestDeploys&collapse=unusedFeatures'',
         headers = [(''sentry-trace'', ''0af7651916cd43dd-b7ad6b7169203331''),
                    (''baggage'', ''sentry-environment=prod'')], withCredentials = True\<rparr>,
        \<lparr>http_method = ''GET'',
         url = ''https://us.sentry.io'' @ ''/api/0/organizations/'' @ ''acme'' @ ''/teams/'',
         headers = [(''sentry-trace'', ''0af7651916cd43dd-b7ad6b7169203331''),
                    (''baggage'', ''sentry-environment=prod'')], withCredentials = True\<rparr>]\<rparr>)"
    by (rule preloadData_issue
          [where u = "JObj [(''id'', JStr ''1'')]" and h = "JStr ''https://us.sentry.io''"])
       (simp_all add: example_page_def resolve_slug_def resolve_host_def trace_header_def
         example_transport_def)
  then show ?thesis by simp
qed

lemma example_page_futures:
  "future_of (snd (bootstrap example_transport example_page :: completion \<times> 'j world)) ''organization'' =
     Some (Pending 0)"
  "future_of (snd (bootstrap example_transport example_page :: completion \<times> 'j world)) ''projects'' =
     Some (Pending 1)"
  "future_of (snd (bootstrap example_transport example_page :: completion \<times> 'j world)) ''teams'' =
     Some (Pending 2)"
  by (simp_all add: bootstrap_world example_page_loaded future_of_def published_def)

section \<open>The claims of the specification\<close>

subsection \<open>The three requests\<close>

text \<open>
  C1. On a signed-in page whose tenant slug resolves and whose trace context can be read,
  in a browser whose transport takes the three URLs and the two header values, the
  script sends exactly three requests, in the order organization, projects, teams; each
  is a GET, and its URL is the host, then \<^verbatim>\<open>/api/0/organizations/\<close>, the slug and the
  suffix of the request.
\<close>

theorem three_requests_in_order:
  assumes "has_user d"
    and "resolve_slug d = Inr sl" "truthy sl" "to_string sl = Inr s"
    and "resolve_host d = Inr h" "to_string h = Inr hs"
    and "trace_header d ''sentry_trace'' = Inr st" "trace_header d ''baggage'' = Inr bg"
    and "open_throws tr (hs @ ''/api/0/organizations/'' @ s @ ''/?detailed=0'') = None"
    and "open_throws tr (hs @ ''/api/0/organizations/'' @ s @
      ''/projects/?all_projects=1&collapse=latestDeploys&collapse=unusedFeatures'') = None"
    and "open_throws tr (hs @ ''/api/0/organizations/'' @ s @ ''/teams/'') = None"
    and "header_throws tr ''sentry-trace'' st = None" "header_throws tr ''baggage'' bg = None"
  shows "map (\<lambda>r. (http_method r, url r)) (issued (snd (bootstrap tr d :: completion \<times> 'j world))) =
    [(''GET'', hs @ ''/api/0/organizations/'' @ s @ ''/?detailed=0''),
     (''GET'', hs @ ''/api/0/organizations/'' @ s @
        ''/projects/?all_projects=1&collapse=latestDeploys&collapse=unusedFeatures''),
     (''GET'', hs @ ''/api/0/organizations/'' @ s @ ''/teams/'')]"
proof -
  obtain u where u: "get_prop d ''user'' = Inr u" "truthy u"
    using assms(1) by (auto simp add: has_user_iff)
  show ?thesis
    by (simp add: bootstrap_world preloadData_issue [OF u assms(2-13)])
qed

theorem three_requests_in_order_witness:
  "has_user acme_page \<and>
   resolve_slug acme_page = Inr (JStr ''acme'') \<and> truthy (JStr ''acme'') \<and>
   to_string (JStr ''acme'') = Inr ''acme'' \<and>
   resolve_host acme_page = Inr (JStr []) \<and> to_string (JStr []) = Inr [] \<and>
   trace_header acme_page ''sentry_trace'' = Inr ''0af7651916cd43dd-b7ad6b7169203331'' \<and>
   trace_header acme_page ''baggage'' = Inr ''sentry-environment=prod'' \<and>
   open_throws example_transport ''/api/0/organizations/acme/?detailed=0'' = None \<and>
   open_throws example_transport
     ''/api/0/organizations/acme/projects/?all_projects=1&collapse=latestDeploys&collapse=unusedFeatures'' = None \<and>
   open_throws example_transport ''/api/0/organizations/acme/teams/'' = None \<and>
   header_throws example_transport ''sentry-trace'' ''0af7651916cd43dd-b7ad6b7169203331'' = None \<and>
   header_throws example_transport ''baggage'' ''sentry-environment=prod'' = None \<and>
   map (\<lambda>r. (http_method r, url r))
     (issued (snd (bootstrap example_transport acme_page :: completion \<times> jsval world))) =
    [(''GET'', ''/api/0/organizations/acme/?detailed=0''),
     (''GET'', ''/api/0/organizations/acme/projects/?all_projects=1&collapse=latestDeploys&collapse=unusedFeatures''),
     (''GET'', ''/api/0/organizations/acme/teams/'')]"
proof -
  have a: "has_user acme_page"
    by (simp add: has_user_def acme_page_def)
  have b: "resolve_slug acme_page = Inr (JStr ''acme'')"
    by (simp add: resolve_slug_def acme_page_def)
  have c: "truthy (JStr ''acme'')" "to_string (JStr ''acme'') = Inr ''acme''"
    by simp_all
  have e: "resolve_host acme_page = Inr (JStr [])"
    by (simp add: resolve_host_def acme_page_def)
  have f: "to_string (JStr []) = Inr []"
    by simp
  have g: "trace_header acme_page ''sentry_trace'' = Inr ''0af7651916cd43dd-b7ad6b7169203331''"
    by (simp add: trace_header_def acme_page_def)
  have i: "trace_header acme_page ''baggage'' = Inr ''sentry-environment=prod''"
    by (simp add: trace_header_def acme_page_def)
  have o: "open_throws example_transport ([] @ ''/api/0/organizations/'' @ ''acme'' @ ''/?detailed=0'') = None"
    "open_throws example_transport ([] @ ''/api/0/organizations/'' @ ''acme'' @
      ''/projects/?all_projects=1&collapse=latestDeploys&collapse=unusedFeatures'') = None"
    "open_throws example_transport ([] @ ''/api/0/organizations/'' @ ''acme'' @ ''/teams/'') = None"
    by (simp_all add: example_transport_def)
  have k: "header_throws example_transport ''sentry-trace'' ''0af7651916cd43dd-b7ad6b7169203331'' = None"
    "header_throws example_transport ''baggage'' ''sentry-environment=prod'' = None"
    by (simp_all add: example_transport_def)
  show ?thesis
    using a b c e f g i o k
      three_requests_in_order [OF a b c e f g i o k, where 'j = jsval]
    by simp
qed

text \<open>
  Where the transport refuses the URLs, as it does for a region host that holds a space,
  nothing is sent and the three promises are rejected with the transport's exception.
\<close>

lemma refused_host_sends_nothing:
  "issued (snd (bootstrap example_transport page_with_bad_host :: completion \<times> jsval world)) = [] \<and>
   future_of (snd (bootstrap example_transport page_with_bad_host :: completion \<times> jsval world))
     ''organization'' = Some (Rejected (Exception SyntaxError)) \<and>
   future_of (snd (bootstrap example_transport page_with_bad_host :: completion \<times> jsval world))
     ''projects'' = Some (Rejected (Exception SyntaxError)) \<and>
   future_of (snd (bootstrap example_transport page_with_bad_host :: completion \<times> jsval world))
     ''teams'' = Some (Rejected (Exception SyntaxError))"
  by (simp add: bootstrap_def preloadData_def preload_def promiseRequest_def makeUrl_def
      resolve_slug_def resolve_host_def assign_def fresh_page_def page_with_bad_host_def
      example_transport_def future_of_def published_def)

subsection \<open>The tenant slug\<close>

text \<open>
  C2. When the page data holds both a last-used organization and a customer domain with a
  subdomain, the slug that the script resolves is the last-used organization; the
  subdomain is taken only when the last-used organization is absent (falsy). A signed-in
  page publishes that slug under \<^verbatim>\<open>orgSlug\<close>.
\<close>

theorem last_organization_wins:
  assumes "get_prop d ''lastOrganization'' = Inr lo"
    and "get_prop d ''customerDomain'' = Inr cd" "truthy cd"
    and "get_prop cd ''subdomain'' = Inr sub"
  shows "resolve_slug d = Inr (if truthy lo then lo else sub) \<and>
    (has_user d \<longrightarrow>
      (\<exists>obj. published (snd (bootstrap tr d :: completion \<times> 'j world)) = Some obj \<and>
        obj ''orgSlug'' = Some (Slug (if truthy lo then lo else sub))))"
proof -
  have slug: "resolve_slug d = Inr (if truthy lo then lo else sub)"
    using assms by (simp add: resolve_slug_def)
  show ?thesis
    using slug bootstrap_orgSlug [OF _ slug, where 'j = 'j and tr = tr] by blast
qed

theorem last_organization_wins_witness:
  "get_prop example_page ''lastOrganization'' = Inr (JStr ''acme'') \<and>
   get_prop example_page ''customerDomain'' = Inr (JObj [(''subdomain'', JStr ''other'')]) \<and>
   truthy (JObj [(''subdomain'', JStr ''other'')]) \<and>
   get_prop (JObj [(''subdomain'', JStr ''other'')]) ''subdomain'' = Inr (JStr ''other'') \<and>
   has_user example_page \<and>
   resolve_slug example_page = Inr (JStr ''acme'') \<and>
   (\<exists>obj. published (snd (bootstrap example_transport example_page :: completion \<times> jsval world)) = Some obj \<and>
      obj ''orgSlug'' = Some (Slug (JStr ''acme'')))"
proof -
  have a: "get_prop example_page ''lastOrganization'' = Inr (JStr ''acme'')"
    by (simp add: example_page_def)
  have b: "get_prop example_page ''customerDomain'' = Inr (JObj [(''subdomain'', JStr ''other'')])"
    by (simp add: example_page_def)
  have c: "truthy (JObj [(''subdomain'', JStr ''other'')])"
    by simp
  have e: "get_prop (JObj [(''subdomain'', JStr ''other'')]) ''subdomain'' = Inr (JStr ''other'')"
    by simp
  have u: "has_user example_page"
    by (simp add: has_user_def example_page_def)
  show ?thesis
    using a b c e u last_organization_wins [OF a b c e, where 'j = jsval and tr = example_transport] by simp
qed

subsection \<open>The host\<close>

text \<open>
  C3. The claim has the empty host prefix whenever the region host is absent or equal to
  the default host, and the region host otherwise. The script does so where there are no
  links and where both hosts are there (\<open>resolve_host_without_links\<close>,
  \<open>resolve_host_with_links\<close>), but it reads the region host without asking whether it
  is there: on a page whose links hold a default host and no region host, the host is
  \<^verbatim>\<open>undefined\<close>, and the three URLs start with the text \<^verbatim>\<open>undefined\<close> instead of
  being relative to the origin.
\<close>

theorem absent_region_host_is_taken:
  "get_prop page_without_region ''links'' = Inr (JObj [(''sentryUrl'', JStr ''https://sentry.io'')]) \<and>
   get_prop (JObj [(''sentryUrl'', JStr ''https://sentry.io'')]) ''regionUrl'' = Inr JUndefined \<and>
   resolve_host page_without_region = Inr JUndefined \<and>
   map url (issued (snd (bootstrap example_transport page_without_region :: completion \<times> jsval world))) =
     [''undefined/api/0/organizations/acme/?detailed=0'',
      ''undefined/api/0/organizations/acme/projects/?all_projects=1&collapse=latestDeploys&collapse=unusedFeatures'',
      ''undefined/api/0/organizations/acme/teams/'']"
  by (simp add: bootstrap_def preloadData_def preload_def promiseRequest_def makeUrl_def
      trace_header_def resolve_slug_def resolve_host_def assign_def fresh_page_def
      page_without_region_def example_transport_def)

subsection \<open>Nothing to preload\<close>

text \<open>
  C4. On a page without a user marker, and on a page with a user whose tenant slug does
  not resolve, the function returns normally, no request is sent and the registry is
  empty: it holds no promise under any key, and none of the three request keys. Without a
  user the page is left as it was.
\<close>

theorem nothing_to_preload:
  assumes "get_prop d ''user'' = Inr u"
    and "\<not> truthy u \<or> (\<exists>sl. resolve_slug d = Inr sl \<and> \<not> truthy sl)"
  shows "fst (preloadData tr d (fresh_page :: 'j world)) = Returned \<and>
    issued (snd (bootstrap tr d :: completion \<times> 'j world)) = [] \<and>
    (\<forall>key. future_of (snd (bootstrap tr d :: completion \<times> 'j world)) key = None) \<and>
    request_keys \<inter> registry_keys (snd (bootstrap tr d :: completion \<times> 'j world)) = {} \<and>
    (\<not> truthy u \<longrightarrow> snd (bootstrap tr d) = (fresh_page :: 'j world))"
proof (cases "truthy u")
  case False
  show ?thesis
    by (simp add: bootstrap_world preloadData_no_user [OF assms(1) False]
        registry_keys_def future_of_def published_def fresh_page_def)
next
  case True
  then obtain sl where sl: "resolve_slug d = Inr sl" "\<not> truthy sl"
    using assms(2) by blast
  show ?thesis
    using True
    by (simp add: bootstrap_world preloadData_no_slug [OF assms(1) True sl]
        registry_keys_def future_of_def published_def fresh_page_def request_keys_def)
qed

theorem nothing_to_preload_witness:
  "get_prop no_tenant_page ''user'' = Inr (JObj [(''id'', JStr ''1'')]) \<and>
   resolve_slug no_tenant_page = Inr JNull \<and> \<not> truthy JNull \<and>
   fst (preloadData example_transport no_tenant_page (fresh_page :: jsval world)) = Returned \<and>
   issued (snd (bootstrap example_transport no_tenant_page :: completion \<times> jsval world)) = [] \<and>
   future_of (snd (bootstrap example_transport no_tenant_page :: completion \<times> jsval world)) ''organization'' = None \<and>
   request_keys \<inter> registry_keys (snd (bootstrap example_transport no_tenant_page :: completion \<times> jsval world)) = {} \<and>
   get_prop anonymous_page ''user'' = Inr JNull \<and>
   snd (bootstrap example_transport anonymous_page) = (fresh_page :: jsval world)"
proof -
  have a: "get_prop no_tenant_page ''user'' = Inr (JObj [(''id'', JStr ''1'')])"
    by (simp add: no_tenant_page_def)
  have b: "resolve_slug no_tenant_page = Inr JNull \<and> \<not> truthy JNull"
    by (simp add: resolve_slug_def no_tenant_page_def)
  then have c: "\<not> truthy (JObj [(''id'', JStr ''1'')]) \<or>
      (\<exists>sl. resolve_slug no_tenant_page = Inr sl \<and> \<not> truthy sl)"
    by blast
  have e: "get_prop anonymous_page ''user'' = Inr JNull"
    by (simp add: anonymous_page_def)
  have f: "\<not> truthy JNull \<or> (\<exists>sl. resolve_slug anonymous_page = Inr sl \<and> \<not> truthy sl)"
    by simp
  show ?thesis
    using a b e
      nothing_to_preload [OF a c, where 'j = jsval and tr = example_transport]
      nothing_to_preload [OF e f, where 'j = jsval and tr = example_transport]
    by simp
qed

subsection \<open>Headers and credentials\<close>

text \<open>
  C5. Every request that the script sends has \<^verbatim>\<open>withCredentials\<close> set and carries
  exactly the headers \<^verbatim>\<open>sentry-trace\<close> and \<^verbatim>\<open>baggage\<close>, whose values are those of the
  page's trace context; where these are strings, the header values are these very
  strings. No part of this depends on the page's links or on the transport.
\<close>

theorem requests_carry_trace_and_credentials:
  assumes "r \<in> set (issued (snd (bootstrap tr d :: completion \<times> 'j world)))"
  shows "withCredentials r \<and>
    (\<exists>st bg. trace_header d ''sentry_trace'' = Inr st \<and> trace_header d ''baggage'' = Inr bg \<and>
       headers r = [(''sentry-trace'', st), (''baggage'', bg)]) \<and>
    (\<forall>t st bg. get_prop d ''initialTrace'' = Inr t \<and>
       get_prop t ''sentry_trace'' = Inr (JStr st) \<and> get_prop t ''baggage'' = Inr (JStr bg) \<longrightarrow>
       headers r = [(''sentry-trace'', st), (''baggage'', bg)])"
proof -
  have mem: "r \<in> set (issued (snd (preloadData tr d (fresh_page :: 'j world))))"
    using assms by (simp add: bootstrap_world)
  have main: "withCredentials r \<and>
    (\<exists>st bg. trace_header d ''sentry_trace'' = Inr st \<and> trace_header d ''baggage'' = Inr bg \<and>
       headers r = [(''sentry-trace'', st), (''baggage'', bg)])"
  proof (cases "get_prop d ''user''")
    case (Inl e)
    with mem show ?thesis by (simp add: preloadData_no_data fresh_page_def)
  next
    case u: (Inr u)
    show ?thesis
    proof (cases "truthy u")
      case False
      with mem u show ?thesis by (simp add: preloadData_no_user fresh_page_def)
    next
      case True
      obtain sl where sl: "resolve_slug d = Inr sl"
        using resolve_slug_defined [OF u] by blast
      show ?thesis
      proof (cases "truthy sl")
        case False
        with mem show ?thesis
          by (simp add: preloadData_no_slug [OF u True sl False] fresh_page_def)
      next
        case slug: True
        from u True sl slug show ?thesis
        proof (cases rule: preloadData_outcome [where 'j = 'j and tr = tr])
          case (url_error e)
          with mem show ?thesis by simp
        next
          case (assigned p1 p2 p3 rs)
          with mem have "well_sent d r" by simp
          then show ?thesis by (simp add: well_sent_def)
        qed
      qed
    qed
  qed
  then show ?thesis
    by (auto simp add: trace_header_def)
qed

theorem requests_carry_trace_and_credentials_witness:
  "length (issued (snd (bootstrap example_transport example_page :: completion \<times> jsval world))) = 3 \<and>
   list_all (\<lambda>r. withCredentials r \<and>
      headers r = [(''sentry-trace'', ''0af7651916cd43dd-b7ad6b7169203331''),
                   (''baggage'', ''sentry-environment=prod'')])
     (issued (snd (bootstrap example_transport example_page :: completion \<times> jsval world)))"
proof -
  have ex: "get_prop example_page ''initialTrace'' =
      Inr (JObj [(''sentry_trace'', JStr ''0af7651916cd43dd-b7ad6b7169203331''),
                 (''baggage'', JStr ''sentry-environment=prod'')])"
    by (simp add: example_page_def)
  have "withCredentials r \<and>
      headers r = [(''sentry-trace'', ''0af7651916cd43dd-b7ad6b7169203331''),
                   (''baggage'', ''sentry-environment=prod'')]"
    if "r \<in> set (issued (snd (bootstrap example_transport example_page :: completion \<times> jsval world)))" for r
    using requests_carry_trace_and_credentials [OF that] ex by simp
  moreover have "length (issued (snd (bootstrap example_transport example_page :: completion \<times> jsval world))) = 3"
    by (simp add: bootstrap_world example_page_loaded)
  ultimately show ?thesis
    by (simp add: list_all_iff)
qed

subsection \<open>Settling the futures\<close>

text \<open>
  C6, as the script has it. The future of a request is fulfilled, with the parsed body,
  the status text and the request's handle, exactly when the status is in [200, 300)
  and the body parses as JSON; a status outside [200, 300), and a transport error,
  reject it with the status code and the status text. An event of another request leaves
  it pending, and does not change how it settles afterwards.
\<close>

theorem future_settles_on_its_own_response:
  assumes "future_of w key = Some (Pending x)"
  shows "(future_of (deliver parse x (OnLoad rsp) w) key = Some (Fulfilled v t h) \<longleftrightarrow>
      200 \<le> status rsp \<and> status rsp < 300 \<and> parse (body rsp) = Some v \<and>
      t = statusText rsp \<and> h = x) \<and>
    (\<not> (200 \<le> status rsp \<and> status rsp < 300) \<longrightarrow>
      future_of (deliver parse x (OnLoad rsp) w) key =
        Some (Rejected (StatusPair (status rsp) (statusText rsp)))) \<and>
    future_of (deliver parse x (OnError rsp) w) key =
      Some (Rejected (StatusPair (status rsp) (statusText rsp))) \<and>
    (y \<noteq> x \<longrightarrow>
      future_of (deliver parse y ev w) key = Some (Pending x) \<and>
      future_of (deliver parse x ev' (deliver parse y ev w)) key =
        future_of (deliver parse x ev' w) key)"
proof (intro conjI impI)
  show "future_of (deliver parse x (OnLoad rsp) w) key = Some (Fulfilled v t h) \<longleftrightarrow>
      200 \<le> status rsp \<and> status rsp < 300 \<and> parse (body rsp) = Some v \<and>
      t = statusText rsp \<and> h = x"
    using assms
    by (auto simp add: future_of_deliver fire_own_load onload_def split: option.splits)
next
  assume "\<not> (200 \<le> status rsp \<and> status rsp < 300)"
  then show "future_of (deliver parse x (OnLoad rsp) w) key =
      Some (Rejected (StatusPair (status rsp) (statusText rsp)))"
    using assms by (auto simp add: future_of_deliver fire_own_load onload_def)
next
  show "future_of (deliver parse x (OnError rsp) w) key =
      Some (Rejected (StatusPair (status rsp) (statusText rsp)))"
    using assms by (simp add: future_of_deliver fire_own_error onerror_def)
next
  assume "y \<noteq> x"
  then show "future_of (deliver parse y ev w) key = Some (Pending x)"
    using assms by (simp add: future_of_deliver fire_other)
next
  assume "y \<noteq> x"
  then show "future_of (deliver parse x ev' (deliver parse y ev w)) key =
      future_of (deliver parse x ev' w) key"
    using assms by (simp add: future_of_deliver fire_other)
qed

theorem future_settles_on_its_own_response_witness:
  "future_of (snd (bootstrap example_transport example_page :: completion \<times> jsval world)) ''projects'' =
     Some (Pending 1) \<and>
   future_of (deliver example_parse 1 (OnLoad empty_ok)
       (snd (bootstrap example_transport example_page :: completion \<times> jsval world))) ''projects'' =
     Some (Fulfilled (JObj []) ''OK'' 1) \<and>
   future_of (deliver example_parse 1 (OnLoad server_error)
       (snd (bootstrap example_transport example_page :: completion \<times> jsval world))) ''projects'' =
     Some (Rejected (StatusPair 500 ''Internal Server Error'')) \<and>
   future_of (deliver example_parse 0 (OnLoad server_error)
       (snd (bootstrap example_transport example_page :: completion \<times> jsval world))) ''projects'' =
     Some (Pending 1) \<and>
   future_of (deliver example_parse 1 (OnLoad empty_ok)
       (deliver example_parse 0 (OnLoad server_error)
         (snd (bootstrap example_transport example_page :: completion \<times> jsval world)))) ''projects'' =
     Some (Fulfilled (JObj []) ''OK'' 1)"
proof -
  let ?w = "snd (bootstrap example_transport example_page :: completion \<times> jsval world)"
  have p: "future_of ?w ''projects'' = Some (Pending 1)"
    by (rule example_page_futures)
  have ok: "200 \<le> status empty_ok \<and> status empty_ok < 300 \<and>
      example_parse (body empty_ok) = Some (JObj []) \<and> ''OK'' = statusText empty_ok"
    by (simp add: empty_ok_def example_parse_def)
  have bad: "\<not> (200 \<le> status server_error \<and> status server_error < 300)"
    "status server_error = 500" "statusText server_error = ''Internal Server Error''"
    by (simp_all add: server_error_def)
  note own = future_settles_on_its_own_response [OF p, of example_parse]
  have f: "future_of (deliver example_parse 1 (OnLoad empty_ok) ?w) ''projects'' =
      Some (Fulfilled (JObj []) ''OK'' 1)"
    using ok own [of empty_ok "JObj []" "''OK''" 1] by blast
  have r: "future_of (deliver example_parse 1 (OnLoad server_error) ?w) ''projects'' =
      Some (Rejected (StatusPair 500 ''Internal Server Error''))"
    using bad own [of server_error] by simp
  have o: "future_of (deliver example_parse 0 (OnLoad server_error) ?w) ''projects'' =
        Some (Pending 1) \<and>
      future_of (deliver example_parse 1 (OnLoad empty_ok)
          (deliver example_parse 0 (OnLoad server_error) ?w)) ''projects'' =
        future_of (deliver example_parse 1 (OnLoad empty_ok) ?w) ''projects''"
    using own [of _ _ _ _ 0 "OnLoad server_error" "OnLoad empty_ok"] by simp
  show ?thesis
    using p f r o by simp
qed

text \<open>
  The claim C6 as it was stated fails where a response has a status in [200, 300) and a
  body that is not JSON: the future of the organization request is rejected.
\<close>

theorem success_status_rejected_counterexample:
  "200 \<le> status garbled_ok \<and> status garbled_ok < 300 \<and>
   future_of (snd (bootstrap example_transport example_page :: completion \<times> jsval world)) ''organization'' =
     Some (Pending 0) \<and>
   future_of (deliver example_parse 0 (OnLoad garbled_ok)
       (snd (bootstrap example_transport example_page :: completion \<times> jsval world))) ''organization'' =
     Some (Rejected NoValue)"
  by (simp add: future_of_deliver example_page_futures fire_own_load onload_def garbled_ok_def
      example_parse_def)

text \<open>
  C7, as the script has it. A status outside [200, 300) rejects the future with the
  status code and the status text. A status in [200, 300) with a body that does not
  parse rejects it with no value at all. Both are rejections, and they are never the
  same one.
\<close>

theorem failure_shapes:
  assumes "future_of w key = Some (Pending x)"
    and "\<not> (200 \<le> status bad \<and> status bad < 300)"
    and "200 \<le> status rsp \<and> status rsp < 300" "parse (body rsp) = None"
  shows "future_of (deliver parse x (OnLoad bad) w) key =
      Some (Rejected (StatusPair (status bad) (statusText bad))) \<and>
    future_of (deliver parse x (OnLoad rsp) w) key = Some (Rejected NoValue) \<and>
    future_of (deliver parse x (OnLoad rsp) w) key \<noteq> future_of (deliver parse x (OnLoad bad) w) key"
  using assms by (auto simp add: future_of_deliver fire_own_load onload_def)

theorem failure_shapes_witness:
  "future_of (snd (bootstrap example_transport example_page :: completion \<times> jsval world)) ''teams'' =
     Some (Pending 2) \<and>
   \<not> (200 \<le> status server_error \<and> status server_error < 300) \<and>
   200 \<le> status garbled_ok \<and> status garbled_ok < 300 \<and>
   example_parse (body garbled_ok) = None \<and>
   future_of (deliver example_parse 2 (OnLoad server_error)
       (snd (bootstrap example_transport example_page :: completion \<times> jsval world))) ''teams'' =
     Some (Rejected (StatusPair 500 ''Internal Server Error'')) \<and>
   future_of (deliver example_parse 2 (OnLoad garbled_ok)
       (snd (bootstrap example_transport example_page :: completion \<times> jsval world))) ''teams'' =
     Some (Rejected NoValue)"
proof -
  let ?w = "snd (bootstrap example_transport example_page :: completion \<times> jsval world)"
  have p: "future_of ?w ''teams'' = Some (Pending 2)"
    by (rule example_page_futures)
  have bad: "\<not> (200 \<le> status server_error \<and> status server_error < 300)"
    by (simp add: server_error_def)
  have ok: "200 \<le> status garbled_ok \<and> status garbled_ok < 300"
    by (simp add: garbled_ok_def)
  have np: "example_parse (body garbled_ok) = None"
    by (simp add: garbled_ok_def example_parse_def)
  have s: "status server_error = 500" "statusText server_error = ''Internal Server Error''"
    by (simp_all add: server_error_def)
  show ?thesis
    using p bad ok np s failure_shapes [where parse = example_parse, OF p bad ok np] by simp
qed

text \<open>
  The claim C7 as it was stated fails on the teams request: the body that does not parse
  rejects with no value, which is not the pair of the status code and the status text.
\<close>

theorem parse_failure_shape_counterexample:
  "200 \<le> status garbled_ok \<and> status garbled_ok < 300 \<and>
   example_parse (body garbled_ok) = None \<and>
   future_of (deliver example_parse 2 (OnLoad garbled_ok)
       (snd (bootstrap example_transport example_page :: completion \<times> jsval world))) ''teams'' =
     Some (Rejected NoValue) \<and>
   future_of (deliver example_parse 2 (OnLoad garbled_ok)
       (snd (bootstrap example_transport example_page :: completion \<times> jsval world))) ''teams'' \<noteq>
     Some (Rejected (StatusPair (status garbled_ok) (statusText garbled_ok)))"
  by (simp add: future_of_deliver example_page_futures fire_own_load onload_def garbled_ok_def
      example_parse_def)

subsection \<open>The registry\<close>

text \<open>
  C8. After the top-level call, and after any events of the requests, the registry holds
  either none or all of the keys \<^verbatim>\<open>organization\<close>, \<^verbatim>\<open>projects\<close>, \<^verbatim>\<open>teams\<close>. When the
  function has returned with a tenant slug, a reader finds under each of the three keys a
  promise that is not fulfilled yet; without a user or without a slug it finds none of the
  three keys.
\<close>

theorem registry_empty_or_full:
  "(request_keys \<inter> registry_keys (deliver_all parse evs (snd (bootstrap tr d :: completion \<times> 'j world))) = {} \<or>
    request_keys \<subseteq> registry_keys (deliver_all parse evs (snd (bootstrap tr d :: completion \<times> 'j world)))) \<and>
   (has_user d \<and> resolve_slug d = Inr sl \<and> truthy sl \<and>
    fst (preloadData tr d (fresh_page :: 'j world)) = Returned \<longrightarrow>
      (\<forall>key \<in> request_keys.
         \<exists>p. future_of (snd (bootstrap tr d :: completion \<times> 'j world)) key = Some p \<and>
           (\<forall>v t x. p \<noteq> Fulfilled v t x))) \<and>
   (\<not> has_user d \<or> resolve_slug d = Inr sl \<and> \<not> truthy sl \<longrightarrow>
      request_keys \<inter> registry_keys (snd (bootstrap tr d :: completion \<times> 'j world)) = {})"
proof -
  let ?w = "snd (preloadData tr d (fresh_page :: 'j world))"
  have none_without_user: "request_keys \<inter> registry_keys ?w = {}" if "\<not> has_user d"
  proof (cases "get_prop d ''user''")
    case (Inl e)
    then show ?thesis
      by (simp add: preloadData_no_data registry_keys_def published_def fresh_page_def)
  next
    case (Inr u)
    with that have "\<not> truthy u" by (simp add: has_user_def)
    with Inr show ?thesis
      by (simp add: preloadData_no_user registry_keys_def published_def fresh_page_def)
  qed
  have none_without_slug: "request_keys \<inter> registry_keys ?w = {}"
    if "has_user d" "resolve_slug d = Inr s'" "\<not> truthy s'" for s'
  proof -
    from that(1) obtain u where u: "get_prop d ''user'' = Inr u" "truthy u"
      by (rule has_userE)
    show ?thesis
      by (simp add: preloadData_no_slug [OF u that(2,3)] registry_keys_def published_def
          fresh_page_def request_keys_def)
  qed
  have with_slug:
    "(fst (preloadData tr d (fresh_page :: 'j world)) \<noteq> Returned \<and> request_keys \<inter> registry_keys ?w = {}) \<or>
     (\<forall>key \<in> request_keys. \<exists>p. future_of ?w key = Some p \<and> (\<forall>v t x. p \<noteq> Fulfilled v t x))"
    if "has_user d" "resolve_slug d = Inr s'" "truthy s'" for s'
  proof -
    from that(1) obtain u where u: "get_prop d ''user'' = Inr u" "truthy u"
      by (rule has_userE)
    from u that(2,3) show ?thesis
    proof (cases rule: preloadData_outcome [where 'j = 'j and tr = tr])
      case (url_error e)
      then show ?thesis
        by (simp add: registry_keys_def published_def request_keys_def)
    next
      case (assigned p1 p2 p3 rs)
      then show ?thesis
        by (simp add: future_of_def published_def request_keys_def)
    qed
  qed
  have keys_of_futures: "request_keys \<subseteq> registry_keys w"
    if "\<forall>key \<in> request_keys. \<exists>p. future_of w key = Some p \<and> (\<forall>v t x. p \<noteq> Fulfilled v t x)"
    for w :: "'j world"
  proof
    fix key assume "key \<in> request_keys"
    with that obtain p where "future_of w key = Some p" by blast
    then show "key \<in> registry_keys w"
      by (auto simp add: future_of_def registry_keys_def split: option.splits)
  qed
  have first: "request_keys \<inter> registry_keys ?w = {} \<or> request_keys \<subseteq> registry_keys ?w"
  proof (cases "has_user d")
    case False
    then show ?thesis using none_without_user by blast
  next
    case True
    then obtain u where u: "get_prop d ''user'' = Inr u"
      by (auto simp add: has_user_iff)
    obtain s' where s': "resolve_slug d = Inr s'"
      using resolve_slug_defined [OF u] by blast
    show ?thesis
      using none_without_slug [OF True s'] with_slug [OF True s'] keys_of_futures [of ?w]
      by (cases "truthy s'") blast+
  qed
  show ?thesis
    using first none_without_user none_without_slug with_slug
    by (simp add: bootstrap_world registry_keys_deliver_all) blast
qed

theorem registry_empty_or_full_witness:
  "has_user example_page \<and> resolve_slug example_page = Inr (JStr ''acme'') \<and>
   truthy (JStr ''acme'') \<and>
   fst (preloadData example_transport example_page (fresh_page :: jsval world)) = Returned \<and>
   request_keys \<subseteq> registry_keys
     (deliver_all example_parse [(0, OnLoad server_error), (2, OnLoad empty_ok)]
       (snd (bootstrap example_transport example_page :: completion \<times> jsval world))) \<and>
   future_of (snd (bootstrap example_transport example_page :: completion \<times> jsval world)) ''organization'' =
     Some (Pending 0) \<and>
   future_of (snd (bootstrap example_transport example_page :: completion \<times> jsval world)) ''projects'' =
     Some (Pending 1) \<and>
   future_of (snd (bootstrap example_transport example_page :: completion \<times> jsval world)) ''teams'' =
     Some (Pending 2) \<and>
   \<not> has_user anonymous_page \<and>
   request_keys \<inter> registry_keys (snd (bootstrap example_transport anonymous_page :: completion \<times> jsval world)) = {}"
proof -
  have a: "has_user example_page" "resolve_slug example_page = Inr (JStr ''acme'')"
    by (simp_all add: has_user_def resolve_slug_def example_page_def)
  have c: "\<not> has_user anonymous_page"
    by (simp add: has_user_def anonymous_page_def)
  have t: "truthy (JStr ''acme'')"
    by simp
  have r: "fst (preloadData example_transport example_page (fresh_page :: jsval world)) = Returned"
    by (simp add: example_page_loaded)
  have k: "request_keys \<subseteq> registry_keys
     (deliver_all example_parse [(0, OnLoad server_error), (2, OnLoad empty_ok)]
       (snd (bootstrap example_transport example_page :: completion \<times> jsval world)))"
    unfolding registry_keys_deliver_all
    by (simp add: bootstrap_world example_page_loaded registry_keys_def published_def
        request_keys_def)
  have n: "request_keys \<inter>
      registry_keys (snd (bootstrap example_transport anonymous_page :: completion \<times> jsval world)) = {}"
    using c
      registry_empty_or_full [of example_parse "[]" example_transport anonymous_page JNull]
    by blast
  show ?thesis
    using a t r k example_page_futures [where 'j = jsval] c n
      registry_empty_or_full [of example_parse "[(0, OnLoad server_error), (2, OnLoad empty_ok)]"
        example_transport example_page "JStr ''acme''"]
    by (intro conjI) assumption+
qed

subsection \<open>The top-level call\<close>

text \<open>
  C9. Whatever the page data is, also when it is missing or malformed and the function
  throws, the top-level call completes normally: the exception is caught and dropped,
  and the page keeps what the function did before it threw.
\<close>

theorem bootstrap_never_throws:
  "fst (bootstrap tr d :: completion \<times> 'j world) = Returned \<and>
   snd (bootstrap tr d :: completion \<times> 'j world) = snd (preloadData tr d fresh_page)"
  by (simp add: bootstrap_def split: prod.splits completion.splits)

theorem bootstrap_never_throws_witness:
  "preloadData example_transport JUndefined (fresh_page :: jsval world) = (Thrown TypeError, fresh_page) \<and>
   fst (bootstrap example_transport JUndefined :: completion \<times> jsval world) = Returned \<and>
   snd (bootstrap example_transport JUndefined :: completion \<times> jsval world) = fresh_page"
  using bootstrap_never_throws [of example_transport JUndefined, where 'j = jsval]
  by (simp add: preloadData_def)

subsection \<open>User without tenant\<close>

text \<open>
  C10. With a user marker and no tenant slug, the script still publishes the registry: it
  holds the \<^verbatim>\<open>orgSlug\<close> key, whose value is the absent slug as it was read, and nothing
  else. Without a user marker \<^verbatim>\<open>window.__sentry_preload\<close> is never assigned. So the two
  cases differ in whether the registry exists.
\<close>

theorem registry_tells_user_from_tenant:
  "(has_user d \<and> resolve_slug d = Inr sl \<and> \<not> truthy sl \<longrightarrow>
      (\<exists>obj. published (snd (bootstrap tr d :: completion \<times> 'j world)) = Some obj \<and>
         dom obj = {''orgSlug''} \<and> obj ''orgSlug'' = Some (Slug sl))) \<and>
   (\<not> has_user d \<longrightarrow>
      sentry_preload (snd (bootstrap tr d :: completion \<times> 'j world)) = None \<and>
      published (snd (bootstrap tr d :: completion \<times> 'j world)) = None)"
proof (intro conjI impI)
  assume a: "has_user d \<and> resolve_slug d = Inr sl \<and> \<not> truthy sl"
  then obtain u where u: "get_prop d ''user'' = Inr u" "truthy u"
    by (auto simp add: has_user_iff)
  from a have sl: "resolve_slug d = Inr sl" "\<not> truthy sl"
    by simp_all
  show "\<exists>obj. published (snd (bootstrap tr d :: completion \<times> 'j world)) = Some obj \<and>
      dom obj = {''orgSlug''} \<and> obj ''orgSlug'' = Some (Slug sl)"
    by (simp add: bootstrap_world preloadData_no_slug [OF u sl] published_def fresh_page_def)
next
  assume n: "\<not> has_user d"
  have w: "snd (preloadData tr d (fresh_page :: 'j world)) = fresh_page"
  proof (cases "get_prop d ''user''")
    case (Inl e)
    then show ?thesis by (simp add: preloadData_no_data)
  next
    case (Inr u)
    with n have "\<not> truthy u" by (simp add: has_user_def)
    with Inr show ?thesis by (simp add: preloadData_no_user)
  qed
  show "sentry_preload (snd (bootstrap tr d :: completion \<times> 'j world)) = None"
    by (simp add: bootstrap_world w) (simp add: fresh_page_def)
  show "published (snd (bootstrap tr d :: completion \<times> 'j world)) = None"
    by (simp add: bootstrap_world w) (simp add: fresh_page_def published_def)
qed

theorem registry_tells_user_from_tenant_witness:
  "has_user no_tenant_page \<and> resolve_slug no_tenant_page = Inr JNull \<and> \<not> truthy JNull \<and>
   (\<exists>obj. published (snd (bootstrap example_transport no_tenant_page :: completion \<times> jsval world)) = Some obj \<and>
      dom obj = {''orgSlug''} \<and> obj ''orgSlug'' = Some (Slug JNull)) \<and>
   \<not> has_user anonymous_page \<and>
   sentry_preload (snd (bootstrap example_transport anonymous_page :: completion \<times> jsval world)) = None \<and>
   published (snd (bootstrap example_transport anonymous_page :: completion \<times> jsval world)) = None"
proof -
  have a: "has_user no_tenant_page \<and> resolve_slug no_tenant_page = Inr JNull \<and> \<not> truthy JNull"
    by (simp add: has_user_def resolve_slug_def no_tenant_page_def)
  have b: "\<not> has_user anonymous_page"
    by (simp add: has_user_def anonymous_page_def)
  show ?thesis
    using a b
      registry_tells_user_from_tenant [of no_tenant_page JNull example_transport, where 'j = jsval]
      registry_tells_user_from_tenant [of anonymous_page JNull example_transport, where 'j = jsval]
    by blast
qed

end
